theory Spec2Isabelle
  imports Main "HOL-Library.Multiset"
begin

section \<open>Data model of \<open>src/botxlab/src/App.tsx\<close>\<close>

text \<open>
  The interfaces of the source, field by field. A JavaScript \<open>number\<close> that holds a
  count or an identifier is an \<open>int\<close>, \<open>T | null\<close> is \<open>T option\<close>, a string is a
  \<open>string\<close>. Fields whose name is shared by several interfaces carry the interface as a
  prefix in every interface but \<open>Repo\<close>.
\<close>

record License =
  spdx_id :: string

record Repo =
  id_num :: int
  name :: string
  full_name :: string
  description :: "string option"
  stargazers_count :: int
  updated_at :: string
  language :: "string option"
  html_url :: string
  default_branch :: string
  homepage :: "string option"
  license :: "License option"
  open_issues_count :: int
  topics :: "string list"

record Release =
  release_id :: int
  release_name :: string
  tag_name :: string
  prerelease :: bool
  published_at :: string
  release_html_url :: string
  body :: string

record CommitAuthor =
  author_name :: string
  author_date :: string

record CommitDetail =
  message :: string
  author :: CommitAuthor

record Commit =
  sha :: string
  commit_html_url :: string
  commit :: CommitDetail

record Collaborator =
  collaborator_id :: int
  login :: string
  avatar_url :: string
  collaborator_html_url :: string
  contributions :: int

record TocItem =
  toc_id :: string
  toc_text :: string
  level :: int

datatype ViewState = dashboard | project

text \<open>
  The four values of \<open>TabState\<close> are the strings \<open>'readme'\<close>, \<open>'releases'\<close>,
  \<open>'commits'\<close> and \<open>'collaborators'\<close>; the constructors carry a prefix because the
  state variables \<open>releases\<close>, \<open>commits\<close> and \<open>collaborators\<close> have the same names.
\<close>

datatype TabState = tab_readme | tab_releases | tab_commits | tab_collaborators

datatype SyncStatus = success | failed | loading | idle

section \<open>Strings\<close>

text \<open>
  \<open>String.prototype.startsWith\<close>, and \<open>s.replace(/^\.\//, '')\<close>, which removes one
  leading \<open>./\<close> and nothing else (the pattern is anchored and not global).
\<close>

definition startsWith :: "string \<Rightarrow> string \<Rightarrow> bool" where
  "startsWith s p = (take (length p) s = p)"

definition replace_dot_slash :: "string \<Rightarrow> string" where
  "replace_dot_slash s = (if startsWith s ''./'' then drop 2 s else s)"

text \<open>\<open>x || d\<close> on a string that may be undefined: the empty string is falsy too.\<close>

definition or_else :: "string option \<Rightarrow> string \<Rightarrow> string" where
  "or_else x d = (case x of None \<Rightarrow> d | Some s \<Rightarrow> if s = [] then d else s)"

section \<open>The link rewriter: \<open>markdownComponents\<close>\<close>

text \<open>
  \<open>markdownComponents.img\<close> and \<open>markdownComponents.a\<close> compute the \<open>src\<close> and the
  \<open>href\<close> that are rendered. Both read \<open>currentRepo\<close> from the component's state, which
  is \<open>null\<close> until a repository is opened; the property (\<open>props.src\<close>, \<open>props.href\<close>)
  may be missing.
\<close>

definition img_src :: "Repo option \<Rightarrow> string option \<Rightarrow> string" where
  "img_src currentRepo src =
     (let url = or_else src [] in
      case currentRepo of
        None \<Rightarrow> url
      | Some repo \<Rightarrow>
          if \<not> startsWith url ''http'' \<and> \<not> startsWith url ''data:'' then
            (let branch = or_else (Some (default_branch repo)) ''master'';
                 cleanPath = replace_dot_slash url
             in ''https://raw.githubusercontent.com/'' @ full_name repo @ ''/'' @ branch
                  @ ''/'' @ cleanPath)
          else url)"

definition a_href :: "Repo option \<Rightarrow> string option \<Rightarrow> string" where
  "a_href currentRepo href =
     (let url = or_else href [] in
      case currentRepo of
        None \<Rightarrow> url
      | Some repo \<Rightarrow>
          if \<not> startsWith url ''http'' \<and> \<not> startsWith url ''#''
             \<and> \<not> startsWith url ''mailto:'' then
            (let branch = or_else (Some (default_branch repo)) ''master'';
                 cleanPath = replace_dot_slash url
             in ''https://github.com/'' @ full_name repo @ ''/blob/'' @ branch
                  @ ''/'' @ cleanPath)
          else url)"

section \<open>The JavaScript runtime and the network\<close>

text \<open>
  TypeScript's types are erased when the program runs: \<open>res.json()\<close> and
  \<open>JSON.parse\<close> give whatever document the text holds. A document is modelled as far as
  the program looks at it: an array of items (with \<open>length\<close> and \<open>sort\<close>), or an object
  with string fields and neither a \<open>length\<close> nor a \<open>sort\<close> (such as the error document
  \<open>{"message": ...}\<close> of the GitHub API).
\<close>

datatype 'a json = JArray "'a list" | JObject "(string \<times> string) list"

text \<open>\<open>data.length\<close>: \<open>undefined\<close> on an object.\<close>

fun json_length :: "'a json \<Rightarrow> nat option" where
  "json_length (JArray xs) = Some (length xs)"
| "json_length (JObject fs) = None"

text \<open>
  \<open>await fetch(url, {headers})\<close> either rejects (a transport failure, with the message
  of the error) or resolves to a response with a \<open>status\<close>; reading the body of the
  response (\<open>res.text()\<close>, \<open>res.json()\<close>) either rejects, with a message, or gives the
  content.
\<close>

datatype 'b fetch_result = Rejected string | Response nat "string + 'b"

type_synonym headers = "(string \<times> string) list"

type_synonym request = "string \<times> headers"

text \<open>\<open>res.ok\<close>: the status is in the range 200 to 299.\<close>

definition ok :: "nat \<Rightarrow> bool" where
  "ok status = (200 \<le> status \<and> status \<le> 299)"

text \<open>
  The network, one function for each kind of content the program reads from a response.
\<close>

record network =
  fetch_repos :: "request \<Rightarrow> Repo json fetch_result"
  fetch_text :: "request \<Rightarrow> string fetch_result"
  fetch_releases :: "request \<Rightarrow> Release json fetch_result"
  fetch_commits :: "request \<Rightarrow> Commit json fetch_result"
  fetch_contributors :: "request \<Rightarrow> Collaborator json fetch_result"

text \<open>
  The parts of the JavaScript runtime that the program calls and that are not part of
  the repository are parameters: \<open>new Date(s).getTime()\<close> (\<open>None\<close> is \<open>NaN\<close>, the time of
  an invalid date), \<open>JSON.stringify\<close>, and \<open>JSON.parse\<close> (\<open>None\<close> when it throws a
  \<open>SyntaxError\<close>). The browser decides whether \<open>localStorage.setItem(key, value)\<close>
  stores the value or throws a \<open>QuotaExceededError\<close>, given what the store holds.
\<close>

record runtime =
  Date_getTime :: "string \<Rightarrow> int option"
  JSON_stringify :: "Repo json \<Rightarrow> string"
  JSON_parse :: "string \<Rightarrow> Repo json option"
  quota_exceeded :: "(string \<rightharpoonup> string) \<Rightarrow> string \<Rightarrow> string \<Rightarrow> bool"

text \<open>A thrown error, with its \<open>message\<close>.\<close>

datatype exn = Error (exn_message: string)

text \<open>The decimal digits of a number, as a template literal prints it.\<close>

fun string_of_nat :: "nat \<Rightarrow> string" where
  "string_of_nat n =
     (if n < 10 then [char_of (48 + n)]
      else string_of_nat (n div 10) @ [char_of (48 + n mod 10)])"

text \<open>
  \<open>Array.prototype.sort\<close> with a comparison function. The language requires the sort
  to be stable and reads a comparison result of \<open>NaN\<close> as \<open>+0\<close>; for a comparison
  function that is a consistent order the result is then determined, and the insertion
  sort below computes it. An element is inserted in front of the first element that it
  does not have to follow. When a comparison is \<open>NaN\<close> beside others that are not, the
  comparison function is not a consistent order; the language then leaves the order to
  the engine, and the order below is one of those it allows.
\<close>

definition not_after :: "int option \<Rightarrow> bool" where
  "not_after v = (case v of None \<Rightarrow> True | Some d \<Rightarrow> d \<le> 0)"

fun sort_insert :: "('a \<Rightarrow> 'a \<Rightarrow> int option) \<Rightarrow> 'a \<Rightarrow> 'a list \<Rightarrow> 'a list" where
  "sort_insert cmp x [] = [x]"
| "sort_insert cmp x (y # ys) =
     (if not_after (cmp x y) then x # y # ys else y # sort_insert cmp x ys)"

definition Array_sort :: "('a \<Rightarrow> 'a \<Rightarrow> int option) \<Rightarrow> 'a list \<Rightarrow> 'a list" where
  "Array_sort cmp xs = foldr (sort_insert cmp) xs []"

section \<open>The state of the component\<close>

text \<open>
  The state variables of \<open>App\<close>, and the browser's \<open>localStorage\<close>. The variables that
  are typed as arrays hold a document, since nothing checks what \<open>res.json()\<close> and
  \<open>JSON.parse\<close> return.
\<close>

record app_state =
  repos :: "Repo json"
  config_token :: string
  config_org :: string
  currentRepo :: "Repo option"
  view :: ViewState
  activeTab :: TabState
  searchTerm :: string
  isSidebarOpen :: bool
  isSettingsOpen :: bool
  isMobileTabMenuOpen :: bool
  reposLoading :: bool
  contentLoading :: bool
  syncStatus :: SyncStatus
  repoCopied :: bool
  readmeContent :: string
  toc :: "TocItem list"
  releases :: "Release json"
  commits :: "Commit json"
  collaborators :: "Collaborator json"
  contentError :: "string option"
  localStorage :: "string \<rightharpoonup> string"

text \<open>
  The initial value of \<open>repos\<close>: the cached catalog, read before anything else happens.
  \<open>saved ? JSON.parse(saved) : []\<close> is \<open>[]\<close> for a missing and for an empty value, and the
  \<open>catch\<close> gives \<open>[]\<close> when \<open>JSON.parse\<close> throws.
\<close>

definition repos_init :: "runtime \<Rightarrow> (string \<rightharpoonup> string) \<Rightarrow> Repo json" where
  "repos_init rt store =
     (case store ''botxlab_cache_v6'' of
        None \<Rightarrow> JArray []
      | Some saved \<Rightarrow>
          if saved = [] then JArray []
          else (case JSON_parse rt saved of None \<Rightarrow> JArray [] | Some v \<Rightarrow> v))"

definition App_init :: "runtime \<Rightarrow> (string \<rightharpoonup> string) \<Rightarrow> app_state" where
  "App_init rt store =
     \<lparr> repos = repos_init rt store,
       config_token = or_else (store ''botxlab_token'') [],
       config_org = or_else (store ''botxlab_org'') ''botxlab'',
       currentRepo = None, view = dashboard, activeTab = tab_readme, searchTerm = [],
       isSidebarOpen = False, isSettingsOpen = False, isMobileTabMenuOpen = False,
       reposLoading = False, contentLoading = False, syncStatus = idle,
       repoCopied = False, readmeContent = [], toc = [],
       releases = JArray [], commits = JArray [], collaborators = JArray [],
       contentError = None, localStorage = store \<rparr>"

section \<open>\<open>getHeaders\<close> and \<open>fetchRepos\<close>\<close>

definition getHeaders :: "string \<Rightarrow> headers" where
  "getHeaders token =
     (''Accept'', ''application/vnd.github.v3+json'')
       # (if token \<noteq> [] then [(''Authorization'', ''Bearer '' @ token)] else [])"

definition orgs_url :: "string \<Rightarrow> string" where
  "orgs_url org =
     ''https://api.github.com/orgs/'' @ org @ ''/repos?sort=updated&per_page=100&type=all''"

definition users_url :: "string \<Rightarrow> string" where
  "users_url org =
     ''https://api.github.com/users/'' @ org @ ''/repos?sort=updated&per_page=100&type=all''"

text \<open>
  The requests of \<open>fetchRepos\<close>: the response that the rest of the function reads, and
  the requests that were sent, in the order they were sent.
\<close>

definition fetchRepos_fetch ::
  "network \<Rightarrow> string \<Rightarrow> string \<Rightarrow> Repo json fetch_result \<times> request list" where
  "fetchRepos_fetch net org token =
     (let first = (orgs_url org, getHeaders token) in
      case fetch_repos net first of
        Rejected m \<Rightarrow> (Rejected m, [first])
      | Response status b \<Rightarrow>
          if status = 404 then
            (let second = (users_url org, getHeaders token)
             in (fetch_repos net second, [first, second]))
          else (Response status b, [first]))"

text \<open>
  The comparison function of the sort:
  \<open>new Date(b.updated_at).getTime() - new Date(a.updated_at).getTime()\<close>, which is \<open>NaN\<close>
  when one of the two dates is invalid.
\<close>

definition compare_updated_at :: "runtime \<Rightarrow> Repo \<Rightarrow> Repo \<Rightarrow> int option" where
  "compare_updated_at rt a b =
     (case (Date_getTime rt (updated_at b), Date_getTime rt (updated_at a)) of
        (Some tb, Some ta) \<Rightarrow> Some (tb - ta)
      | _ \<Rightarrow> None)"

text \<open>
  The body of the \<open>try\<close> block up to the sorted array: the value of \<open>processed\<close>, or the
  error that is thrown. Calling \<open>sort\<close> on a document that is not an array is a
  \<open>TypeError\<close>, whose message is the engine's.
\<close>

definition fetchRepos_try ::
  "runtime \<Rightarrow> network \<Rightarrow> string \<Rightarrow> string \<Rightarrow> exn + Repo list" where
  "fetchRepos_try rt net org token =
     (case fst (fetchRepos_fetch net org token) of
        Rejected m \<Rightarrow> Inl (Error m)
      | Response status b \<Rightarrow>
          if \<not> ok status then Inl (Error (''API Error: '' @ string_of_nat status))
          else (case b of
                  Inl m \<Rightarrow> Inl (Error m)
                | Inr (JObject fs) \<Rightarrow> Inl (Error ''data.sort is not a function'')
                | Inr (JArray data) \<Rightarrow> Inr (Array_sort (compare_updated_at rt) data)))"

text \<open>
  \<open>fetchRepos\<close> runs up to its first \<open>await\<close>, and is resumed when the requests have
  settled: with the sorted array it stores the catalog and then writes the cache, with
  an error the \<open>catch\<close> only records the failure. The write to the cache is inside the
  \<open>try\<close> block and comes after \<open>setRepos\<close>: when it throws, the catalog has been
  replaced already and the \<open>catch\<close> records a failure.
\<close>

definition fetchRepos_start :: "app_state \<Rightarrow> app_state" where
  "fetchRepos_start s = s\<lparr>reposLoading := True, syncStatus := loading\<rparr>"

definition fetchRepos_finish :: "runtime \<Rightarrow> exn + Repo list \<Rightarrow> app_state \<Rightarrow> app_state" where
  "fetchRepos_finish rt outcome s =
     (case outcome of
        Inr processed \<Rightarrow>
          (let text = JSON_stringify rt (JArray processed) in
           if quota_exceeded rt (localStorage s) ''botxlab_cache_v6'' text then
             s\<lparr>repos := JArray processed, syncStatus := failed, reposLoading := False\<rparr>
           else
             s\<lparr>repos := JArray processed,
               localStorage := (localStorage s)(''botxlab_cache_v6'' \<mapsto> text),
               syncStatus := success,
               reposLoading := False\<rparr>)
      | Inl e \<Rightarrow> s\<lparr>syncStatus := failed, reposLoading := False\<rparr>)"

definition fetchRepos :: "runtime \<Rightarrow> network \<Rightarrow> app_state \<Rightarrow> app_state" where
  "fetchRepos rt net s =
     fetchRepos_finish rt (fetchRepos_try rt net (config_org s) (config_token s))
       (fetchRepos_start s)"

section \<open>\<open>loadContent\<close>\<close>

text \<open>\<open>{ ...getHeaders(), 'Accept': v }\<close>: the entry is replaced where it stands.\<close>

fun set_header :: "string \<Rightarrow> string \<Rightarrow> headers \<Rightarrow> headers" where
  "set_header k v [] = [(k, v)]"
| "set_header k v ((k', v') # hs) =
     (if k' = k then (k, v) # hs else (k', v') # set_header k v hs)"

definition baseUrl :: "Repo \<Rightarrow> string" where
  "baseUrl repo = ''https://api.github.com/repos/'' @ full_name repo"

definition readme_request :: "string \<Rightarrow> Repo \<Rightarrow> request" where
  "readme_request token repo =
     (baseUrl repo @ ''/readme'',
      set_header ''Accept'' ''application/vnd.github.v3.raw'' (getHeaders token))"

definition releases_request :: "string \<Rightarrow> Repo \<Rightarrow> request" where
  "releases_request token repo = (baseUrl repo @ ''/releases'', getHeaders token)"

definition commits_request :: "string \<Rightarrow> Repo \<Rightarrow> request" where
  "commits_request token repo = (baseUrl repo @ ''/commits?per_page=20'', getHeaders token)"

definition contributors_request :: "string \<Rightarrow> Repo \<Rightarrow> request" where
  "contributors_request token repo = (baseUrl repo @ ''/contributors'', getHeaders token)"

text \<open>
  \<open>loadContent\<close> is a closure over the repository, the tab and the headers of the render
  that started it. It runs up to its first \<open>await\<close> at once; the rest runs when the
  request has settled, on the state of that later moment. The body of the \<open>try\<close> block
  gives the state it leaves and the error it throws, if any: the state variable of the
  releases and of the contributors is set before the error for an empty array is thrown.
\<close>

definition loadContent_start :: "TabState \<Rightarrow> app_state \<Rightarrow> app_state" where
  "loadContent_start tab s =
     s\<lparr>contentLoading := True,
       contentError := None,
       readmeContent := (if tab = tab_readme then [] else readmeContent s)\<rparr>"

definition loadContent_try ::
  "network \<Rightarrow> string \<Rightarrow> Repo \<Rightarrow> TabState \<Rightarrow> app_state \<Rightarrow> exn option \<times> app_state" where
  "loadContent_try net token repo tab s =
     (case tab of
        tab_readme \<Rightarrow>
          (case fetch_text net (readme_request token repo) of
             Rejected m \<Rightarrow> (Some (Error m), s)
           | Response status b \<Rightarrow>
               if \<not> ok status then (Some (Error ''README not found''), s)
               else (case b of
                       Inl m \<Rightarrow> (Some (Error m), s)
                     | Inr text \<Rightarrow> (None, s\<lparr>readmeContent := text\<rparr>)))
      | tab_releases \<Rightarrow>
          (case fetch_releases net (releases_request token repo) of
             Rejected m \<Rightarrow> (Some (Error m), s)
           | Response status b \<Rightarrow>
               (case b of
                  Inl m \<Rightarrow> (Some (Error m), s)
                | Inr data \<Rightarrow>
                    if json_length data = Some 0
                    then (Some (Error ''No releases found''), s\<lparr>releases := data\<rparr>)
                    else (None, s\<lparr>releases := data\<rparr>)))
      | tab_commits \<Rightarrow>
          (case fetch_commits net (commits_request token repo) of
             Rejected m \<Rightarrow> (Some (Error m), s)
           | Response status b \<Rightarrow>
               (case b of
                  Inl m \<Rightarrow> (Some (Error m), s)
                | Inr data \<Rightarrow> (None, s\<lparr>commits := data\<rparr>)))
      | tab_collaborators \<Rightarrow>
          (case fetch_contributors net (contributors_request token repo) of
             Rejected m \<Rightarrow> (Some (Error m), s)
           | Response status b \<Rightarrow>
               (case b of
                  Inl m \<Rightarrow> (Some (Error m), s)
                | Inr data \<Rightarrow>
                    if json_length data = Some 0
                    then (Some (Error ''No contributors found''), s\<lparr>collaborators := data\<rparr>)
                    else (None, s\<lparr>collaborators := data\<rparr>))))"

definition loadContent_finish ::
  "network \<Rightarrow> string \<Rightarrow> Repo \<Rightarrow> TabState \<Rightarrow> app_state \<Rightarrow> app_state" where
  "loadContent_finish net token repo tab s =
     (case loadContent_try net token repo tab s of
        (None, s') \<Rightarrow> s'\<lparr>contentLoading := False\<rparr>
      | (Some err, s') \<Rightarrow>
          s'\<lparr>contentError := Some (or_else (Some (exn_message err)) ''Error fetching data''),
             contentLoading := False\<rparr>)"

text \<open>A call of \<open>loadContent\<close> that nothing interrupts.\<close>

definition loadContent :: "network \<Rightarrow> Repo \<Rightarrow> TabState \<Rightarrow> app_state \<Rightarrow> app_state" where
  "loadContent net repo tab s =
     loadContent_finish net (config_token s) repo tab (loadContent_start tab s)"

text \<open>
  What the main column of the project view renders: the loading notice, the error
  panel with its reason, or the content of the active tab. The lists are rendered with
  \<open>releases.map\<close>, \<open>commits.map\<close> and \<open>collaborators.map\<close>: on a document that is not an
  array the render throws a \<open>TypeError\<close>, which nothing catches.
\<close>

datatype shown =
    shown_loading
  | shown_failed string
  | shown_readme string
  | shown_releases "Release json"
  | shown_commits "Commit json"
  | shown_collaborators "Collaborator json"
  | render_throws

fun is_array :: "'a json \<Rightarrow> bool" where
  "is_array (JArray xs) = True"
| "is_array (JObject fs) = False"

definition tab_content :: "app_state \<Rightarrow> shown" where
  "tab_content s =
     (case activeTab s of
        tab_readme \<Rightarrow> shown_readme (readmeContent s)
      | tab_releases \<Rightarrow>
          if is_array (releases s) then shown_releases (releases s) else render_throws
      | tab_commits \<Rightarrow>
          if is_array (commits s) then shown_commits (commits s) else render_throws
      | tab_collaborators \<Rightarrow>
          if is_array (collaborators s) then shown_collaborators (collaborators s)
          else render_throws)"

definition project_view :: "app_state \<Rightarrow> shown" where
  "project_view s =
     (if contentLoading s then shown_loading
      else (case contentError s of
              None \<Rightarrow> tab_content s
            | Some reason \<Rightarrow> if reason \<noteq> [] then shown_failed reason else tab_content s))"

section \<open>Handlers, and the effect that starts \<open>loadContent\<close>\<close>

definition handleOpenProject :: "Repo \<Rightarrow> app_state \<Rightarrow> app_state" where
  "handleOpenProject repo s =
     s\<lparr>currentRepo := Some repo,
       view := project,
       activeTab := tab_readme,
       isSidebarOpen := False,
       isMobileTabMenuOpen := False,
       searchTerm := []\<rparr>"

text \<open>
  The calls of \<open>loadContent\<close> whose request has not settled yet are kept beside the
  state, each with what its closure holds. The effect runs after a render in which
  \<open>view\<close>, \<open>activeTab\<close>, \<open>currentRepo\<close> or the headers differ from the render before, and
  starts \<open>loadContent\<close> when a project is shown. It has no cleanup function, and nothing
  in \<open>loadContent\<close> compares its closure with the current selection. The dependency
  \<open>currentRepo\<close> is compared as an object, not by its fields: two objects with equal
  fields differ. So the object that \<open>currentRepo\<close> holds is kept beside the state by a
  number that stands for it.
\<close>

record world =
  app :: app_state
  currentRepo_object :: "nat option"
  pending :: "(Repo \<times> TabState \<times> string) list"

definition content_effect :: "world \<Rightarrow> world \<Rightarrow> world" where
  "content_effect before w =
     (let s = app w in
      if (view s, activeTab s, currentRepo_object w, config_token s)
           = (view (app before), activeTab (app before), currentRepo_object before,
              config_token (app before))
      then w
      else if view s = project then
        (case currentRepo s of
           None \<Rightarrow> w
         | Some repo \<Rightarrow>
             w\<lparr>app := loadContent_start (activeTab s) s,
               pending := pending w @ [(repo, activeTab s, config_token s)]\<rparr>)
      else w)"

text \<open>
  The events: a repository object is opened from the navigation, a tab is chosen in
  the tab bar, or the request of the pending call at a position settles, with what the
  network answers.
\<close>

datatype event = OpenProject nat Repo | SelectTab TabState | Settle nat network

fun step :: "event \<Rightarrow> world \<Rightarrow> world" where
  "step (OpenProject object repo) w =
     content_effect w
       (w\<lparr>app := handleOpenProject repo (app w), currentRepo_object := Some object\<rparr>)"
| "step (SelectTab tab) w =
     content_effect w (w\<lparr>app := (app w)\<lparr>activeTab := tab\<rparr>\<rparr>)"
| "step (Settle i net) w =
     (if i < length (pending w) then
        (case pending w ! i of
           (repo, tab, token) \<Rightarrow>
             w\<lparr>app := loadContent_finish net token repo tab (app w),
               pending := take i (pending w) @ drop (Suc i) (pending w)\<rparr>)
      else w)"

fun run :: "event list \<Rightarrow> world \<Rightarrow> world" where
  "run [] w = w"
| "run (e # es) w = run es (step e w)"

section \<open>What the claims speak of\<close>

text \<open>
  The catalog is sorted by \<open>updated_at\<close> descending: of two entries, the earlier one in
  the list has a time that is not less than the time of the later one, and both dates
  are valid.
\<close>

definition updated_desc :: "runtime \<Rightarrow> Repo list \<Rightarrow> bool" where
  "updated_desc rt xs =
     sorted_wrt
       (\<lambda>a b. case (Date_getTime rt (updated_at a), Date_getTime rt (updated_at b)) of
                 (Some ta, Some tb) \<Rightarrow> tb \<le> ta
               | _ \<Rightarrow> False) xs"

text \<open>
  A run of \<open>fetchRepos\<close> ends in a resolution error: the sync state is \<open>failed\<close>, and
  neither the catalog nor the cache has changed.
\<close>

definition resolution_failed :: "runtime \<Rightarrow> network \<Rightarrow> app_state \<Rightarrow> bool" where
  "resolution_failed rt net s =
     (syncStatus (fetchRepos rt net s) = failed
      \<and> repos (fetchRepos rt net s) = repos s
      \<and> localStorage (fetchRepos rt net s) = localStorage s)"

section \<open>Examples\<close>

text \<open>Two repositories of the account \<open>acme\<close>; \<open>gadgets\<close> was updated last.\<close>

definition acme_widgets :: Repo where
  "acme_widgets =
     \<lparr> id_num = 1, name = ''widgets'', full_name = ''acme/widgets'', description = None,
       stargazers_count = 0, updated_at = ''2024-01-01T00:00:00Z'', language = None,
       html_url = ''https://github.com/acme/widgets'', default_branch = ''main'',
       homepage = None, license = None, open_issues_count = 0, topics = [] \<rparr>"

definition acme_gadgets :: Repo where
  "acme_gadgets =
     \<lparr> id_num = 2, name = ''gadgets'', full_name = ''acme/gadgets'', description = None,
       stargazers_count = 5, updated_at = ''2024-03-01T00:00:00Z'', language = None,
       html_url = ''https://github.com/acme/gadgets'', default_branch = ''main'',
       homepage = None, license = None, open_issues_count = 0, topics = [] \<rparr>"

text \<open>The text of the catalog \<open>[acme_gadgets, acme_widgets]\<close>.\<close>

definition catalog_text :: string where
  "catalog_text =
     ''[{\"id\":2,\"name\":\"gadgets\",\"full_name\":\"acme/gadgets\",\"description\":null,''
     @ ''\"stargazers_count\":5,\"updated_at\":\"2024-03-01T00:00:00Z\",\"language\":null,''
     @ ''\"html_url\":\"https://github.com/acme/gadgets\",\"default_branch\":\"main\",''
     @ ''\"homepage\":null,\"license\":null,\"open_issues_count\":0,\"topics\":[]},''
     @ ''{\"id\":1,\"name\":\"widgets\",\"full_name\":\"acme/widgets\",\"description\":null,''
     @ ''\"stargazers_count\":0,\"updated_at\":\"2024-01-01T00:00:00Z\",\"language\":null,''
     @ ''\"html_url\":\"https://github.com/acme/widgets\",\"default_branch\":\"main\",''
     @ ''\"homepage\":null,\"license\":null,\"open_issues_count\":0,\"topics\":[]}]''"

text \<open>
  A runtime for the examples. It agrees with JavaScript on the dates and on the texts
  that the examples use: the two dates, the texts \<open>[]\<close> and \<open>{}\<close>, and the text of the
  catalog. Every other date is invalid and every other text does not parse.
\<close>

definition example_runtime :: runtime where
  "example_runtime =
     \<lparr> Date_getTime = (\<lambda>s. if s = ''2024-01-01T00:00:00Z'' then Some 1704067200000
                            else if s = ''2024-03-01T00:00:00Z'' then Some 1709251200000
                            else None),
       JSON_stringify = (\<lambda>v. if v = JArray [acme_gadgets, acme_widgets] then catalog_text
                              else ''[]''),
       JSON_parse = (\<lambda>s. if s = ''[]'' then Some (JArray [])
                          else if s = ''{}'' then Some (JObject [])
                          else if s = catalog_text
                            then Some (JArray [acme_gadgets, acme_widgets])
                          else None),
       quota_exceeded = (\<lambda>store key v. False) \<rparr>"


text \<open>Networks: one that is unreachable, and others that differ from it where stated.\<close>

definition offline :: network where
  "offline =
     \<lparr> fetch_repos = (\<lambda>req. Rejected ''Failed to fetch''),
       fetch_text = (\<lambda>req. Rejected ''Failed to fetch''),
       fetch_releases = (\<lambda>req. Rejected ''Failed to fetch''),
       fetch_commits = (\<lambda>req. Rejected ''Failed to fetch''),
       fetch_contributors = (\<lambda>req. Rejected ''Failed to fetch'') \<rparr>"

text \<open>\<open>acme\<close> is a user account: the organization listing answers 404.\<close>

definition user_account :: network where
  "user_account =
     offline\<lparr> fetch_repos := (\<lambda>req.
        if fst req = orgs_url ''acme''
        then Response 404 (Inr (JObject [(''message'', ''Not Found'')]))
        else Response 200 (Inr (JArray [acme_widgets, acme_gadgets]))) \<rparr>"


text \<open>Every collection is empty.\<close>

definition empty_collections :: network where
  "empty_collections =
     offline\<lparr> fetch_releases := (\<lambda>req. Response 200 (Inr (JArray []))),
              fetch_commits := (\<lambda>req. Response 200 (Inr (JArray []))),
              fetch_contributors := (\<lambda>req. Response 200 (Inr (JArray []))) \<rparr>"

text \<open>Every request is answered with status 404 and the error document of the API.\<close>

definition not_found :: network where
  "not_found =
     offline\<lparr> fetch_repos :=
                (\<lambda>req. Response 404 (Inr (JObject [(''message'', ''Not Found'')]))),
              fetch_text := (\<lambda>req. Response 404 (Inr ''Not Found'')),
              fetch_releases :=
                (\<lambda>req. Response 404 (Inr (JObject [(''message'', ''Not Found'')]))),
              fetch_commits :=
                (\<lambda>req. Response 404 (Inr (JObject [(''message'', ''Not Found'')]))),
              fetch_contributors :=
                (\<lambda>req. Response 404 (Inr (JObject [(''message'', ''Not Found'')]))) \<rparr>"

text \<open>Each of the two repositories has a README.\<close>

definition readmes :: network where
  "readmes =
     offline\<lparr> fetch_text := (\<lambda>req.
        if fst req = ''https://api.github.com/repos/acme/widgets/readme''
        then Response 200 (Inr ''# widgets'')
        else if fst req = ''https://api.github.com/repos/acme/gadgets/readme''
        then Response 200 (Inr ''# gadgets'')
        else Response 404 (Inr ''Not Found'')) \<rparr>"

text \<open>
  States: the component as it starts with the handle \<open>acme\<close> and nothing cached, the
  same after its catalog has been loaded, and a project view on a tab.
\<close>

definition acme_start :: app_state where
  "acme_start = App_init example_runtime [''botxlab_org'' \<mapsto> ''acme'']"

definition acme_loaded :: app_state where
  "acme_loaded = fetchRepos example_runtime user_account acme_start"

definition viewing :: "Repo \<Rightarrow> TabState \<Rightarrow> app_state" where
  "viewing repo tab = acme_start\<lparr>currentRepo := Some repo, view := project, activeTab := tab\<rparr>"

text \<open>
  Nothing is open and no call is pending. Then \<open>widgets\<close> is opened, and \<open>gadgets\<close> before
  the README of \<open>widgets\<close> has arrived; then the two requests settle, first the pending
  call at position \<open>i\<close>, then the one at position \<open>j\<close> of what is left.
\<close>

definition start_world :: world where
  "start_world = \<lparr>app = acme_start, currentRepo_object = None, pending = []\<rparr>"

definition switch_then_settle :: "nat \<Rightarrow> nat \<Rightarrow> world" where
  "switch_then_settle i j =
     run [OpenProject 1 acme_widgets, OpenProject 2 acme_gadgets,
          Settle i readmes, Settle j readmes] start_world"

text \<open>
  \<open>widgets\<close> is opened and its README arrives; its releases tab is chosen, and \<open>gadgets\<close>
  is opened before the releases have arrived. The call for the releases of \<open>widgets\<close> and
  the call for the README of \<open>gadgets\<close> are pending.
\<close>

definition releases_left_behind :: world where
  "releases_left_behind =
     run [OpenProject 1 acme_widgets, Settle 0 readmes, SelectTab tab_releases,
          OpenProject 2 acme_gadgets] start_world"

section \<open>Properties of the link rewriter\<close>

lemma or_else_Some_empty [simp]: "or_else (Some s) [] = s"
  by (simp add: or_else_def)

lemma a_href_fixed: "a_href cr (Some (a_href cr (Some u))) = a_href cr (Some u)"
  by (cases cr) (simp_all add: a_href_def Let_def startsWith_def)

lemma img_src_fixed: "img_src cr (Some (img_src cr (Some u))) = img_src cr (Some u)"
  by (cases cr) (simp_all add: img_src_def Let_def startsWith_def)

text \<open>
  Claim C6, as the code has it. A link passes through unchanged when it starts with
  \<open>http\<close>, with \<open>#\<close> or with \<open>mailto:\<close>; an image source passes through unchanged when
  it starts with \<open>http\<close> or with \<open>data:\<close>; while no repository is open everything passes
  through. Both rewriters are idempotent on every input, so in particular on an absolute
  one, and a fragment link is never rewritten.
\<close>

theorem link_rewriter_pass_through:
  "(startsWith u ''http'' \<or> startsWith u ''#'' \<or> startsWith u ''mailto:''
      \<longrightarrow> a_href cr (Some u) = u)
   \<and> (startsWith u ''http'' \<or> startsWith u ''data:'' \<longrightarrow> img_src cr (Some u) = u)
   \<and> a_href None (Some u) = u \<and> img_src None (Some u) = u
   \<and> a_href cr (Some (a_href cr (Some u))) = a_href cr (Some u)
   \<and> img_src cr (Some (img_src cr (Some u))) = img_src cr (Some u)"
proof -
  have link: "startsWith u ''http'' \<or> startsWith u ''#'' \<or> startsWith u ''mailto:''
      \<longrightarrow> a_href cr (Some u) = u"
    by (cases cr) (auto simp add: a_href_def Let_def)
  have image: "startsWith u ''http'' \<or> startsWith u ''data:'' \<longrightarrow> img_src cr (Some u) = u"
    by (cases cr) (auto simp add: img_src_def Let_def)
  have closed: "a_href None (Some u) = u" "img_src None (Some u) = u"
    by (simp_all add: a_href_def img_src_def)
  from link image closed a_href_fixed img_src_fixed show ?thesis by blast
qed

theorem link_rewriter_pass_through_witness:
  "a_href (Some acme_widgets) (Some ''#section-1'') = ''#section-1''
   \<and> a_href (Some acme_widgets) (Some ''https://example.com/x'') = ''https://example.com/x''
   \<and> img_src (Some acme_widgets) (Some ''data:image/png;base64,AAAA'')
       = ''data:image/png;base64,AAAA''"
  using link_rewriter_pass_through [of "''#section-1''" "Some acme_widgets"]
        link_rewriter_pass_through [of "''https://example.com/x''" "Some acme_widgets"]
        link_rewriter_pass_through [of "''data:image/png;base64,AAAA''" "Some acme_widgets"]
  by (simp add: startsWith_def)

text \<open>
  Claim C6 as it is stated fails: an image source that is a fragment is rewritten, and
  so is a link with a scheme other than \<open>http\<close>, \<open>https\<close> and \<open>mailto\<close>.
\<close>

theorem link_rewriter_pass_through_counterexample:
  "img_src (Some acme_widgets) (Some ''#logo'')
     = ''https://raw.githubusercontent.com/acme/widgets/main/#logo''
   \<and> img_src (Some acme_widgets) (Some ''#logo'') \<noteq> ''#logo''
   \<and> a_href (Some acme_widgets) (Some ''ftp://example.com/x'')
     = ''https://github.com/acme/widgets/blob/main/ftp://example.com/x''
   \<and> a_href (Some acme_widgets) (Some ''ftp://example.com/x'') \<noteq> ''ftp://example.com/x''"
  by (simp add: img_src_def a_href_def acme_widgets_def startsWith_def
      replace_dot_slash_def or_else_def)

text \<open>
  Claim C7, as the code has it. With a repository open, an input that does not start
  with \<open>http\<close> is rewritten after one leading \<open>./\<close> is removed: an image source (that
  does not start with \<open>data:\<close>) to the raw-content form, a link (that starts neither
  with \<open>#\<close> nor with \<open>mailto:\<close>) to the blob-view form. The branch is the default
  branch of the repository, or \<open>master\<close> when that is empty.
\<close>

theorem link_rewriter_relative:
  assumes "\<not> startsWith u ''http''"
  shows "(\<not> startsWith u ''data:'' \<longrightarrow>
           img_src (Some r) (Some u) =
             ''https://raw.githubusercontent.com/'' @ full_name r @ ''/''
               @ (if default_branch r = [] then ''master'' else default_branch r) @ ''/''
               @ (if startsWith u ''./'' then drop 2 u else u))
       \<and> (\<not> startsWith u ''#'' \<and> \<not> startsWith u ''mailto:'' \<longrightarrow>
           a_href (Some r) (Some u) =
             ''https://github.com/'' @ full_name r @ ''/blob/''
               @ (if default_branch r = [] then ''master'' else default_branch r) @ ''/''
               @ (if startsWith u ''./'' then drop 2 u else u))"
  using assms
  by (simp add: img_src_def a_href_def Let_def replace_dot_slash_def or_else_def)

theorem link_rewriter_relative_witness:
  "img_src (Some acme_widgets) (Some ''./img/a.png'')
     = ''https://raw.githubusercontent.com/acme/widgets/main/img/a.png''
   \<and> a_href (Some acme_widgets) (Some ''./docs/guide.md'')
     = ''https://github.com/acme/widgets/blob/main/docs/guide.md''"
  using link_rewriter_relative [of "''./img/a.png''" acme_widgets]
        link_rewriter_relative [of "''./docs/guide.md''" acme_widgets]
  by (simp add: startsWith_def acme_widgets_def)

text \<open>
  Claim C7 as it is stated fails: a relative path without a scheme (it has no colon)
  whose first letters are \<open>http\<close> is left as it is, for a link and for an image.
\<close>

theorem link_rewriter_relative_counterexample:
  "CHR '':'' \<notin> set ''httpd/README.md''
   \<and> a_href (Some acme_widgets) (Some ''httpd/README.md'') = ''httpd/README.md''
   \<and> a_href (Some acme_widgets) (Some ''httpd/README.md'')
       \<noteq> ''https://github.com/acme/widgets/blob/main/httpd/README.md''
   \<and> img_src (Some acme_widgets) (Some ''http2-flow.png'') = ''http2-flow.png''"
  by (simp add: a_href_def img_src_def acme_widgets_def startsWith_def or_else_def)

section \<open>Facts about the examples\<close>


lemma acme_start_config: "config_org acme_start = ''acme''" "config_token acme_start = []"
  by (simp_all add: acme_start_def App_init_def or_else_def)

lemma user_account_try:
  "fetchRepos_try example_runtime user_account ''acme'' [] = Inr [acme_gadgets, acme_widgets]"
  by (simp add: fetchRepos_try_def user_account_def offline_def fetchRepos_fetch_def Let_def
      orgs_url_def users_url_def ok_def Array_sort_def not_after_def compare_updated_at_def
      example_runtime_def acme_widgets_def acme_gadgets_def)

lemma acme_loaded_eq:
  "acme_loaded =
     acme_start\<lparr>repos := JArray [acme_gadgets, acme_widgets],
                localStorage := (localStorage acme_start)(''botxlab_cache_v6'' \<mapsto> catalog_text),
                syncStatus := success, reposLoading := False\<rparr>"
  by (simp add: acme_loaded_def fetchRepos_def acme_start_config user_account_try
      fetchRepos_finish_def fetchRepos_start_def Let_def) (simp add: example_runtime_def)

lemma two_pending:
  "run [OpenProject 1 acme_widgets, OpenProject 2 acme_gadgets] start_world
   = \<lparr>app = (handleOpenProject acme_gadgets acme_start)\<lparr>contentLoading := True\<rparr>,
      currentRepo_object = Some 2,
      pending = [(acme_widgets, tab_readme, []), (acme_gadgets, tab_readme, [])]\<rparr>"
  by (simp add: start_world_def content_effect_def Let_def handleOpenProject_def
      loadContent_start_def acme_start_def App_init_def or_else_def)

lemma releases_left_behind_eq:
  "releases_left_behind
   = \<lparr>app = (handleOpenProject acme_gadgets acme_start)\<lparr>contentLoading := True\<rparr>,
      currentRepo_object = Some 2,
      pending = [(acme_widgets, tab_releases, []), (acme_gadgets, tab_readme, [])]\<rparr>"
  by (simp add: releases_left_behind_def start_world_def content_effect_def Let_def
      handleOpenProject_def loadContent_start_def loadContent_finish_def loadContent_try_def
      readme_request_def baseUrl_def readmes_def offline_def ok_def
      acme_start_def App_init_def or_else_def acme_widgets_def)

section \<open>The account resolver and the catalog: \<open>fetchRepos\<close>\<close>

lemma fetchRepos_failed_frame:
  "fetchRepos_try rt net (config_org s) (config_token s) = Inl e \<Longrightarrow>
   repos (fetchRepos rt net s) = repos s \<and> localStorage (fetchRepos rt net s) = localStorage s
   \<and> syncStatus (fetchRepos rt net s) = failed"
  by (simp add: fetchRepos_def fetchRepos_finish_def fetchRepos_start_def)

lemma fetchRepos_success_frame:
  "fetchRepos_try rt net (config_org s) (config_token s) = Inr processed \<Longrightarrow>
   \<not> quota_exceeded rt (localStorage s) ''botxlab_cache_v6''
       (JSON_stringify rt (JArray processed)) \<Longrightarrow>
   repos (fetchRepos rt net s) = JArray processed
   \<and> localStorage (fetchRepos rt net s)
       = (localStorage s)(''botxlab_cache_v6'' \<mapsto> JSON_stringify rt (JArray processed))
   \<and> syncStatus (fetchRepos rt net s) = success"
  by (simp add: fetchRepos_def fetchRepos_finish_def fetchRepos_start_def Let_def)

lemma fetchRepos_refused_frame:
  "fetchRepos_try rt net (config_org s) (config_token s) = Inr processed \<Longrightarrow>
   quota_exceeded rt (localStorage s) ''botxlab_cache_v6''
       (JSON_stringify rt (JArray processed)) \<Longrightarrow>
   repos (fetchRepos rt net s) = JArray processed
   \<and> localStorage (fetchRepos rt net s) = localStorage s
   \<and> syncStatus (fetchRepos rt net s) = failed"
  by (simp add: fetchRepos_def fetchRepos_finish_def fetchRepos_start_def Let_def)

lemma fetchRepos_try_Rejected:
  "fst (fetchRepos_fetch net org token) = Rejected m \<Longrightarrow>
   \<exists>e. fetchRepos_try rt net org token = Inl e"
  by (simp add: fetchRepos_try_def)

lemma fetchRepos_try_not_ok:
  "fst (fetchRepos_fetch net org token) = Response status b \<Longrightarrow> \<not> ok status \<Longrightarrow>
   \<exists>e. fetchRepos_try rt net org token = Inl e"
  by (simp add: fetchRepos_try_def)

lemma resolution_failedI:
  "fetchRepos_try rt net (config_org s) (config_token s) = Inl e \<Longrightarrow> resolution_failed rt net s"
  using fetchRepos_failed_frame [of rt net s e] by (simp add: resolution_failed_def)

text \<open>
  Claim C2. The organization listing is requested first. The user listing is requested
  if and only if the first response has status 404, once, with the same headers and
  the same query. The response that decides is the second one after a 404 and the
  first one otherwise; when it is a 404 again, any other status that is not a success,
  or a transport failure, the run ends in a resolution error: the sync state is
  \<open>failed\<close> and neither the catalog nor the cache has changed.
\<close>

theorem fetchRepos_resolution:
  assumes "first = (orgs_url (config_org s), getHeaders (config_token s))"
    and "second = (users_url (config_org s), getHeaders (config_token s))"
    and "final = fst (fetchRepos_fetch net (config_org s) (config_token s))"
  shows "snd (fetchRepos_fetch net (config_org s) (config_token s))
           = (if \<exists>b. fetch_repos net first = Response 404 b then [first, second] else [first])
       \<and> final = (if \<exists>b. fetch_repos net first = Response 404 b
                  then fetch_repos net second else fetch_repos net first)
       \<and> snd second = snd first
       \<and> (\<exists>query. fst first = ''https://api.github.com/orgs/'' @ config_org s @ query
                  \<and> fst second = ''https://api.github.com/users/'' @ config_org s @ query)
       \<and> ((\<exists>b b'. fetch_repos net first = Response 404 b
                  \<and> fetch_repos net second = Response 404 b')
            \<longrightarrow> resolution_failed rt net s)
       \<and> ((\<exists>status b. final = Response status b \<and> \<not> ok status) \<longrightarrow> resolution_failed rt net s)
       \<and> ((\<exists>m. final = Rejected m) \<longrightarrow> resolution_failed rt net s)"
proof -
  let ?org = "config_org s" and ?token = "config_token s"
  have log: "snd (fetchRepos_fetch net ?org ?token)
           = (if \<exists>b. fetch_repos net first = Response 404 b then [first, second] else [first])"
    unfolding assms by (cases "fetch_repos net (orgs_url ?org, getHeaders ?token)")
      (simp_all add: fetchRepos_fetch_def Let_def)
  have fin: "final = (if \<exists>b. fetch_repos net first = Response 404 b
                  then fetch_repos net second else fetch_repos net first)"
    unfolding assms by (cases "fetch_repos net (orgs_url ?org, getHeaders ?token)")
      (simp_all add: fetchRepos_fetch_def Let_def)
  have params: "snd second = snd first"
    "\<exists>query. fst first = ''https://api.github.com/orgs/'' @ config_org s @ query
                  \<and> fst second = ''https://api.github.com/users/'' @ config_org s @ query"
    by (simp_all add: assms orgs_url_def users_url_def)
  have not_ok: "(\<exists>status b. final = Response status b \<and> \<not> ok status)
      \<longrightarrow> resolution_failed rt net s"
    using fetchRepos_try_not_ok [of net ?org ?token _ _ rt] resolution_failedI [of rt net s]
    unfolding assms by blast
  have rejected: "(\<exists>m. final = Rejected m) \<longrightarrow> resolution_failed rt net s"
    using fetchRepos_try_Rejected [of net ?org ?token _ rt] resolution_failedI [of rt net s]
    unfolding assms by blast
  have "\<not> ok 404" by (simp add: ok_def)
  with fin not_ok have both: "(\<exists>b b'. fetch_repos net first = Response 404 b
                  \<and> fetch_repos net second = Response 404 b')
            \<longrightarrow> resolution_failed rt net s"
    by auto
  from log fin params not_ok rejected both show ?thesis by blast
qed

theorem fetchRepos_resolution_witness:
  "snd (fetchRepos_fetch user_account ''acme'' [])
     = [(orgs_url ''acme'', getHeaders []), (users_url ''acme'', getHeaders [])]
   \<and> snd (fetchRepos_fetch offline ''acme'' []) = [(orgs_url ''acme'', getHeaders [])]
   \<and> resolution_failed example_runtime not_found acme_start
   \<and> resolution_failed example_runtime offline acme_start"
  using fetchRepos_resolution [OF refl refl refl, of user_account acme_start example_runtime]
        fetchRepos_resolution [OF refl refl refl, of offline acme_start example_runtime]
        fetchRepos_resolution [OF refl refl refl, of not_found acme_start example_runtime]
  by (simp add: acme_start_config user_account_def offline_def not_found_def ok_def
      fetchRepos_fetch_def Let_def orgs_url_def users_url_def)

subsection \<open>The sort\<close>

lemma mset_sort_insert: "mset (sort_insert cmp x xs) = add_mset x (mset xs)"
  by (induction xs) simp_all

lemma mset_Array_sort: "mset (Array_sort cmp xs) = mset xs"
  by (induction xs) (simp_all add: Array_sort_def mset_sort_insert)

lemma set_sort_insert: "set (sort_insert cmp x xs) = insert x (set xs)"
  using mset_sort_insert [of cmp x xs, THEN arg_cong, of set_mset] by simp

lemma set_Array_sort: "set (Array_sort cmp xs) = set xs"
  using mset_Array_sort [of cmp xs, THEN arg_cong, of set_mset] by simp

lemma updated_desc_sort_insert:
  assumes "Date_getTime rt (updated_at x) \<noteq> None"
    and "\<forall>r\<in>set xs. Date_getTime rt (updated_at r) \<noteq> None"
    and "updated_desc rt xs"
  shows "updated_desc rt (sort_insert (compare_updated_at rt) x xs)"
  using assms
proof (induction xs)
  case Nil
  then show ?case by (simp add: updated_desc_def)
next
  case (Cons y ys)
  from Cons.prems obtain tx ty where t: "Date_getTime rt (updated_at x) = Some tx"
      "Date_getTime rt (updated_at y) = Some ty"
    by auto
  show ?case
  proof (cases "not_after (compare_updated_at rt x y)")
    case True
    with t have "ty \<le> tx" by (simp add: not_after_def compare_updated_at_def)
    with True t Cons.prems show ?thesis
      by (fastforce simp add: updated_desc_def split: option.splits)
  next
    case False
    with t have "tx < ty" by (simp add: not_after_def compare_updated_at_def)
    moreover from Cons have "updated_desc rt (sort_insert (compare_updated_at rt) x ys)"
      by (simp add: updated_desc_def)
    ultimately show ?thesis using False t Cons.prems
      by (auto simp add: updated_desc_def set_sort_insert split: option.splits)
  qed
qed

lemma updated_desc_Array_sort:
  "\<forall>r\<in>set xs. Date_getTime rt (updated_at r) \<noteq> None \<Longrightarrow>
   updated_desc rt (Array_sort (compare_updated_at rt) xs)"
proof (induction xs)
  case Nil
  then show ?case by (simp add: Array_sort_def updated_desc_def)
next
  case (Cons x xs)
  then have "updated_desc rt (Array_sort (compare_updated_at rt) xs)" by simp
  with Cons.prems show ?case
    using updated_desc_sort_insert [of rt x "Array_sort (compare_updated_at rt) xs"]
    by (simp add: Array_sort_def set_Array_sort [unfolded Array_sort_def])
qed

lemma fetchRepos_try_Inr:
  assumes "fetchRepos_try rt net org token = Inr processed"
  shows "\<exists>status data.
           fst (fetchRepos_fetch net org token) = Response status (Inr (JArray data))
           \<and> ok status \<and> processed = Array_sort (compare_updated_at rt) data"
  using assms
  by (auto simp add: fetchRepos_try_def
      split: fetch_result.splits if_splits sum.splits json.splits)

text \<open>
  Claim C3. After a successful load, the response that decided was a success holding
  an array; the catalog holds the entries of that array, each as often as the array has
  it, and the cache holds the text of the catalog. When the dates of the entries are
  valid, the catalog, and so the text in the cache, is sorted by \<open>updated_at\<close>
  descending.
\<close>

theorem fetchRepos_sorted:
  assumes "syncStatus (fetchRepos rt net s) = success"
  shows "\<exists>status data processed.
           fst (fetchRepos_fetch net (config_org s) (config_token s))
             = Response status (Inr (JArray data))
           \<and> ok status
           \<and> repos (fetchRepos rt net s) = JArray processed
           \<and> mset processed = mset data
           \<and> localStorage (fetchRepos rt net s) ''botxlab_cache_v6''
               = Some (JSON_stringify rt (JArray processed))
           \<and> ((\<forall>r\<in>set data. Date_getTime rt (updated_at r) \<noteq> None)
                \<longrightarrow> updated_desc rt processed)"
proof (cases "fetchRepos_try rt net (config_org s) (config_token s)")
  case (Inl e)
  with assms show ?thesis
    by (simp add: fetchRepos_def fetchRepos_finish_def)
next
  case (Inr processed)
  from fetchRepos_try_Inr [OF this] obtain status data where
    d: "fst (fetchRepos_fetch net (config_org s) (config_token s))
          = Response status (Inr (JArray data))"
      "ok status" "processed = Array_sort (compare_updated_at rt) data"
    by blast
  have "\<not> quota_exceeded rt (localStorage s) ''botxlab_cache_v6''
           (JSON_stringify rt (JArray processed))"
    using fetchRepos_refused_frame [OF Inr] assms by auto
  from fetchRepos_success_frame [OF Inr this] have
    "repos (fetchRepos rt net s) = JArray processed"
    "localStorage (fetchRepos rt net s) ''botxlab_cache_v6''
       = Some (JSON_stringify rt (JArray processed))"
    by simp_all
  moreover from d(3) have "mset processed = mset data" by (simp add: mset_Array_sort)
  moreover from d(3) have "(\<forall>r\<in>set data. Date_getTime rt (updated_at r) \<noteq> None)
                \<longrightarrow> updated_desc rt processed"
    by (simp add: updated_desc_Array_sort)
  ultimately show ?thesis using d(1,2) by blast
qed

theorem fetchRepos_sorted_witness:
  "syncStatus acme_loaded = success
   \<and> repos acme_loaded = JArray [acme_gadgets, acme_widgets]
   \<and> updated_desc example_runtime [acme_gadgets, acme_widgets]"
proof -
  have loaded: "syncStatus (fetchRepos example_runtime user_account acme_start) = success"
    using acme_loaded_eq by (simp add: acme_loaded_def)
  from fetchRepos_sorted [OF this] obtain status data processed where
    f: "fst (fetchRepos_fetch user_account (config_org acme_start) (config_token acme_start))
             = Response status (Inr (JArray data))"
    and r: "repos (fetchRepos example_runtime user_account acme_start) = JArray processed"
    and u: "(\<forall>r\<in>set data. Date_getTime example_runtime (updated_at r) \<noteq> None)
                \<longrightarrow> updated_desc example_runtime processed"
    by blast
  from f have "data = [acme_widgets, acme_gadgets]"
    by (simp add: acme_start_config user_account_def offline_def fetchRepos_fetch_def Let_def
        orgs_url_def users_url_def)
  moreover from r have "processed = [acme_gadgets, acme_widgets]"
    using acme_loaded_eq by (simp add: acme_loaded_def)
  moreover have "\<forall>r\<in>set [acme_widgets, acme_gadgets].
      Date_getTime example_runtime (updated_at r) \<noteq> None"
    by (simp add: example_runtime_def acme_widgets_def acme_gadgets_def)
  ultimately have "updated_desc example_runtime [acme_gadgets, acme_widgets]"
    using u by blast
  with loaded acme_loaded_eq show ?thesis by (simp add: acme_loaded_def)
qed







section \<open>The content loader: \<open>loadContent\<close>\<close>

text \<open>
  Claim C4. When the request succeeds with an empty array, the releases tab shows the
  failure \<open>No releases found\<close> and the contributors tab the failure
  \<open>No contributors found\<close>, while the commits tab is ready with an empty list and no
  error.
\<close>

theorem loadContent_empty_result:
  assumes "ok status"
  shows "(activeTab s = tab_releases
            \<and> fetch_releases net (releases_request (config_token s) repo)
                = Response status (Inr (JArray []))
          \<longrightarrow> project_view (loadContent net repo tab_releases s)
                = shown_failed ''No releases found'')
       \<and> (activeTab s = tab_collaborators
            \<and> fetch_contributors net (contributors_request (config_token s) repo)
                = Response status (Inr (JArray []))
          \<longrightarrow> project_view (loadContent net repo tab_collaborators s)
                = shown_failed ''No contributors found'')
       \<and> (activeTab s = tab_commits
            \<and> fetch_commits net (commits_request (config_token s) repo)
                = Response status (Inr (JArray []))
          \<longrightarrow> project_view (loadContent net repo tab_commits s) = shown_commits (JArray [])
              \<and> contentError (loadContent net repo tab_commits s) = None
              \<and> contentLoading (loadContent net repo tab_commits s) = False)"
  by (simp add: loadContent_def loadContent_finish_def loadContent_try_def
      loadContent_start_def project_view_def tab_content_def or_else_def)

theorem loadContent_empty_result_witness:
  "project_view (loadContent empty_collections acme_widgets tab_releases
       (viewing acme_widgets tab_releases)) = shown_failed ''No releases found''
   \<and> project_view (loadContent empty_collections acme_widgets tab_collaborators
       (viewing acme_widgets tab_collaborators)) = shown_failed ''No contributors found''
   \<and> project_view (loadContent empty_collections acme_widgets tab_commits
       (viewing acme_widgets tab_commits)) = shown_commits (JArray [])"
  using loadContent_empty_result [of 200 "viewing acme_widgets tab_releases"
          empty_collections acme_widgets]
        loadContent_empty_result [of 200 "viewing acme_widgets tab_collaborators"
          empty_collections acme_widgets]
        loadContent_empty_result [of 200 "viewing acme_widgets tab_commits"
          empty_collections acme_widgets]
  by (simp add: ok_def viewing_def empty_collections_def offline_def)

text \<open>
  A transport failure is caught on every tab and shown with the message of the error,
  and so is a failure to read the body of the response.
\<close>

lemma loadContent_transport_failure:
  assumes "m \<noteq> []"
    and "tab = tab_readme \<Longrightarrow> fetch_text net (readme_request (config_token s) repo) = Rejected m"
    and "tab = tab_releases \<Longrightarrow>
           fetch_releases net (releases_request (config_token s) repo) = Rejected m"
    and "tab = tab_commits \<Longrightarrow>
           fetch_commits net (commits_request (config_token s) repo) = Rejected m"
    and "tab = tab_collaborators \<Longrightarrow>
           fetch_contributors net (contributors_request (config_token s) repo) = Rejected m"
  shows "project_view (loadContent net repo tab s) = shown_failed m"
  using assms
  by (cases tab)
     (simp_all add: loadContent_def loadContent_finish_def loadContent_try_def
        loadContent_start_def project_view_def or_else_def)

text \<open>
  Claim C5, on a response with status 404 that carries the error document of the API.
  The README tab shows a failure. The releases, the commits and the contributors tab do
  not: the status is not looked at, the error document is stored as if it were the
  collection, no error is recorded and the loading flag is cleared. The render of the
  tab then calls \<open>map\<close> on the error document and throws.
\<close>

theorem loadContent_status_unchecked:
  "project_view (loadContent not_found acme_widgets tab_readme
       (viewing acme_widgets tab_readme)) = shown_failed ''README not found''
   \<and> releases (loadContent not_found acme_widgets tab_releases
       (viewing acme_widgets tab_releases)) = JObject [(''message'', ''Not Found'')]
   \<and> contentError (loadContent not_found acme_widgets tab_releases
       (viewing acme_widgets tab_releases)) = None
   \<and> contentLoading (loadContent not_found acme_widgets tab_releases
       (viewing acme_widgets tab_releases)) = False
   \<and> project_view (loadContent not_found acme_widgets tab_releases
       (viewing acme_widgets tab_releases)) = render_throws
   \<and> commits (loadContent not_found acme_widgets tab_commits
       (viewing acme_widgets tab_commits)) = JObject [(''message'', ''Not Found'')]
   \<and> contentError (loadContent not_found acme_widgets tab_commits
       (viewing acme_widgets tab_commits)) = None
   \<and> project_view (loadContent not_found acme_widgets tab_commits
       (viewing acme_widgets tab_commits)) = render_throws
   \<and> collaborators (loadContent not_found acme_widgets tab_collaborators
       (viewing acme_widgets tab_collaborators)) = JObject [(''message'', ''Not Found'')]
   \<and> contentError (loadContent not_found acme_widgets tab_collaborators
       (viewing acme_widgets tab_collaborators)) = None
   \<and> project_view (loadContent not_found acme_widgets tab_collaborators
       (viewing acme_widgets tab_collaborators)) = render_throws"
  by (simp add: loadContent_def loadContent_finish_def loadContent_try_def
      loadContent_start_def project_view_def tab_content_def or_else_def
      viewing_def not_found_def offline_def acme_start_def App_init_def ok_def)

section \<open>Selection and late results\<close>

text \<open>
  Claim C10. Opening a repository makes it the current one, shows the project view on
  the README tab and clears the search term, whatever the tab and the search term were;
  the catalog and the store are left as they are, also by the effect that follows.
\<close>

theorem handleOpenProject_resets:
  "activeTab (handleOpenProject repo s) = tab_readme
   \<and> searchTerm (handleOpenProject repo s) = []
   \<and> repos (handleOpenProject repo s) = repos s
   \<and> localStorage (handleOpenProject repo s) = localStorage s
   \<and> currentRepo (handleOpenProject repo s) = Some repo
   \<and> view (handleOpenProject repo s) = project
   \<and> activeTab (app (step (OpenProject object repo) w)) = tab_readme
   \<and> searchTerm (app (step (OpenProject object repo) w)) = []
   \<and> repos (app (step (OpenProject object repo) w)) = repos (app w)
   \<and> localStorage (app (step (OpenProject object repo) w)) = localStorage (app w)"
  by (simp add: handleOpenProject_def content_effect_def Let_def loadContent_start_def)

lemma loadContent_finish_readme:
  assumes "fetch_text net (readme_request token repo) = Response status (Inr doc)"
    and "ok status"
  shows "loadContent_finish net token repo tab_readme s
           = s\<lparr>readmeContent := doc, contentLoading := False\<rparr>"
  using assms by (simp add: loadContent_finish_def loadContent_try_def)

lemma loadContent_finish_selection:
  "loadContent_finish net token repo tab (s\<lparr>currentRepo := c, activeTab := t, view := v\<rparr>)
     = (loadContent_finish net token repo tab s)\<lparr>currentRepo := c, activeTab := t, view := v\<rparr>"
  by (cases tab)
     (simp_all add: loadContent_finish_def loadContent_try_def
        split: fetch_result.splits sum.splits)

lemma loadContent_finish_keeps:
  "currentRepo (loadContent_finish net token repo tab s) = currentRepo s"
  "activeTab (loadContent_finish net token repo tab s) = activeTab s"
  "view (loadContent_finish net token repo tab s) = view s"
  "contentLoading (loadContent_finish net token repo tab s) = False"
  by (cases tab;
      simp add: loadContent_finish_def loadContent_try_def
        split: fetch_result.splits sum.splits)+

lemma loadContent_finish_rejected:
  "fetch_text net (readme_request token repo) = Rejected m \<Longrightarrow>
     contentError (loadContent_finish net token repo tab_readme s)
       = Some (or_else (Some m) ''Error fetching data'')"
  "fetch_releases net (releases_request token repo) = Rejected m \<Longrightarrow>
     contentError (loadContent_finish net token repo tab_releases s)
       = Some (or_else (Some m) ''Error fetching data'')"
  "fetch_commits net (commits_request token repo) = Rejected m \<Longrightarrow>
     contentError (loadContent_finish net token repo tab_commits s)
       = Some (or_else (Some m) ''Error fetching data'')"
  "fetch_contributors net (contributors_request token repo) = Rejected m \<Longrightarrow>
     contentError (loadContent_finish net token repo tab_collaborators s)
       = Some (or_else (Some m) ''Error fetching data'')"
  by (simp_all add: loadContent_finish_def loadContent_try_def)

lemma loadContent_finish_stored:
  "fetch_releases net (releases_request token repo) = Response status (Inr rs) \<Longrightarrow>
     releases (loadContent_finish net token repo tab_releases s) = rs
     \<and> contentError (loadContent_finish net token repo tab_releases s)
         = (if json_length rs = Some 0 then Some ''No releases found'' else contentError s)"
  "fetch_commits net (commits_request token repo) = Response status (Inr cs) \<Longrightarrow>
     commits (loadContent_finish net token repo tab_commits s) = cs
     \<and> contentError (loadContent_finish net token repo tab_commits s) = contentError s"
  "fetch_contributors net (contributors_request token repo) = Response status (Inr us) \<Longrightarrow>
     collaborators (loadContent_finish net token repo tab_collaborators s) = us
     \<and> contentError (loadContent_finish net token repo tab_collaborators s)
         = (if json_length us = Some 0 then Some ''No contributors found'' else contentError s)"
  by (simp_all add: loadContent_finish_def loadContent_try_def or_else_def)

lemma loadContent_finish_readme_not_ok:
  "fetch_text net (readme_request token repo) = Response status b \<Longrightarrow> \<not> ok status \<Longrightarrow>
     loadContent_finish net token repo tab_readme s
       = s\<lparr>contentError := Some ''README not found'', contentLoading := False\<rparr>"
  by (simp add: loadContent_finish_def loadContent_try_def or_else_def)

lemma step_Settle:
  "i < length (pending w) \<Longrightarrow> pending w ! i = (repo, tab, token) \<Longrightarrow>
   step (Settle i net) w
     = w\<lparr>app := loadContent_finish net token repo tab (app w),
         pending := take i (pending w) @ drop (Suc i) (pending w)\<rparr>"
  by simp

lemma two_settle:
  assumes "pending w = [(repoA, tab_readme, tokenA), (repoB, tab_readme, tokenB)]"
    and "fetch_text net (readme_request tokenA repoA) = Response statusA (Inr textA)"
    and "ok statusA"
    and "fetch_text net (readme_request tokenB repoB) = Response statusB (Inr textB)"
    and "ok statusB"
  shows "app (run [Settle 0 net, Settle 0 net] w)
           = (app w)\<lparr>readmeContent := textB, contentLoading := False\<rparr>
       \<and> app (run [Settle 1 net, Settle 0 net] w)
           = (app w)\<lparr>readmeContent := textA, contentLoading := False\<rparr>
       \<and> pending (run [Settle 0 net, Settle 0 net] w) = []
       \<and> pending (run [Settle 1 net, Settle 0 net] w) = []"
  using assms by (simp add: loadContent_finish_readme)

text \<open>
  Claim C1, as the code has it. When the request of a pending call settles, whatever
  its tab and whether it succeeds or fails, the rest of \<open>loadContent\<close> runs on the state
  of that moment: the call is taken off the pending ones, the loading flag is cleared,
  and the selection (the current repository, the tab, the view) is left as it is. What
  the rest of \<open>loadContent\<close> does is the same whatever the selection is. It stores the
  README, the releases, the commits or the contributors that have arrived, and records
  the error of a call that fails: a rejected request on every tab, a README whose status
  is not a success, an empty list of releases or contributors. Nothing is discarded. So
  of two pending README calls whose requests succeed, the state holds the text of the
  call that settled last: the second one when they settle in the order in which they
  were started, the first one when the first call settles late.
\<close>

theorem settle_regardless_of_selection:
  "(i < length (pending w) \<and> pending w ! i = (repo, tab, token) \<longrightarrow>
      app (step (Settle i net) w) = loadContent_finish net token repo tab (app w)
      \<and> pending (step (Settle i net) w) = take i (pending w) @ drop (Suc i) (pending w)
      \<and> currentRepo (app (step (Settle i net) w)) = currentRepo (app w)
      \<and> activeTab (app (step (Settle i net) w)) = activeTab (app w)
      \<and> view (app (step (Settle i net) w)) = view (app w)
      \<and> contentLoading (app (step (Settle i net) w)) = False)
   \<and> loadContent_finish net token repo tab (s\<lparr>currentRepo := c, activeTab := t, view := v\<rparr>)
       = (loadContent_finish net token repo tab s)\<lparr>currentRepo := c, activeTab := t, view := v\<rparr>
   \<and> (fetch_text net (readme_request token repo) = Response status (Inr doc) \<and> ok status
        \<longrightarrow> loadContent_finish net token repo tab_readme s
              = s\<lparr>readmeContent := doc, contentLoading := False\<rparr>)
   \<and> (fetch_text net (readme_request token repo) = Response status b \<and> \<not> ok status
        \<longrightarrow> loadContent_finish net token repo tab_readme s
              = s\<lparr>contentError := Some ''README not found'', contentLoading := False\<rparr>)
   \<and> (fetch_releases net (releases_request token repo) = Response status (Inr rs)
        \<longrightarrow> releases (loadContent_finish net token repo tab_releases s) = rs
            \<and> contentError (loadContent_finish net token repo tab_releases s)
                = (if json_length rs = Some 0 then Some ''No releases found''
                   else contentError s))
   \<and> (fetch_commits net (commits_request token repo) = Response status (Inr cs)
        \<longrightarrow> commits (loadContent_finish net token repo tab_commits s) = cs
            \<and> contentError (loadContent_finish net token repo tab_commits s) = contentError s)
   \<and> (fetch_contributors net (contributors_request token repo) = Response status (Inr us)
        \<longrightarrow> collaborators (loadContent_finish net token repo tab_collaborators s) = us
            \<and> contentError (loadContent_finish net token repo tab_collaborators s)
                = (if json_length us = Some 0 then Some ''No contributors found''
                   else contentError s))
   \<and> (fetch_text net (readme_request token repo) = Rejected m
        \<longrightarrow> contentError (loadContent_finish net token repo tab_readme s)
              = Some (or_else (Some m) ''Error fetching data''))
   \<and> (fetch_releases net (releases_request token repo) = Rejected m
        \<longrightarrow> contentError (loadContent_finish net token repo tab_releases s)
              = Some (or_else (Some m) ''Error fetching data''))
   \<and> (fetch_commits net (commits_request token repo) = Rejected m
        \<longrightarrow> contentError (loadContent_finish net token repo tab_commits s)
              = Some (or_else (Some m) ''Error fetching data''))
   \<and> (fetch_contributors net (contributors_request token repo) = Rejected m
        \<longrightarrow> contentError (loadContent_finish net token repo tab_collaborators s)
              = Some (or_else (Some m) ''Error fetching data''))
   \<and> (pending w = [(repoA, tab_readme, tokenA), (repoB, tab_readme, tokenB)]
        \<and> fetch_text net (readme_request tokenA repoA) = Response statusA (Inr textA)
        \<and> ok statusA
        \<and> fetch_text net (readme_request tokenB repoB) = Response statusB (Inr textB)
        \<and> ok statusB
        \<longrightarrow> app (run [Settle 0 net, Settle 0 net] w)
              = (app w)\<lparr>readmeContent := textB, contentLoading := False\<rparr>
            \<and> app (run [Settle 1 net, Settle 0 net] w)
              = (app w)\<lparr>readmeContent := textA, contentLoading := False\<rparr>
            \<and> pending (run [Settle 0 net, Settle 0 net] w) = []
            \<and> pending (run [Settle 1 net, Settle 0 net] w) = [])"
proof -
  have settled: "i < length (pending w) \<and> pending w ! i = (repo, tab, token) \<longrightarrow>
      app (step (Settle i net) w) = loadContent_finish net token repo tab (app w)
      \<and> pending (step (Settle i net) w) = take i (pending w) @ drop (Suc i) (pending w)
      \<and> currentRepo (app (step (Settle i net) w)) = currentRepo (app w)
      \<and> activeTab (app (step (Settle i net) w)) = activeTab (app w)
      \<and> view (app (step (Settle i net) w)) = view (app w)
      \<and> contentLoading (app (step (Settle i net) w)) = False"
    by (simp add: loadContent_finish_keeps)
  have two: "pending w = [(repoA, tab_readme, tokenA), (repoB, tab_readme, tokenB)]
        \<and> fetch_text net (readme_request tokenA repoA) = Response statusA (Inr textA)
        \<and> ok statusA
        \<and> fetch_text net (readme_request tokenB repoB) = Response statusB (Inr textB)
        \<and> ok statusB
        \<longrightarrow> app (run [Settle 0 net, Settle 0 net] w)
              = (app w)\<lparr>readmeContent := textB, contentLoading := False\<rparr>
            \<and> app (run [Settle 1 net, Settle 0 net] w)
              = (app w)\<lparr>readmeContent := textA, contentLoading := False\<rparr>
            \<and> pending (run [Settle 0 net, Settle 0 net] w) = []
            \<and> pending (run [Settle 1 net, Settle 0 net] w) = []"
    using two_settle [of w repoA tokenA repoB tokenB net statusA textA statusB textB]
    by blast
  from settled two show ?thesis
    using loadContent_finish_selection [where net = net and token = token and repo = repo
        and tab = tab and s = s and c = c and t = t and v = v]
      loadContent_finish_readme [where net = net and token = token and repo = repo
        and status = status and doc = doc and s = s]
      loadContent_finish_readme_not_ok [where net = net and token = token and repo = repo
        and status = status and b = b and s = s]
      loadContent_finish_stored(1)[where net = net and token = token and repo = repo
        and status = status and rs = rs and s = s]
      loadContent_finish_stored(2)[where net = net and token = token and repo = repo
        and status = status and cs = cs and s = s]
      loadContent_finish_stored(3)[where net = net and token = token and repo = repo
        and status = status and us = us and s = s]
      loadContent_finish_rejected(1)[where net = net and token = token and repo = repo
        and m = m and s = s]
      loadContent_finish_rejected(2)[where net = net and token = token and repo = repo
        and m = m and s = s]
      loadContent_finish_rejected(3)[where net = net and token = token and repo = repo
        and m = m and s = s]
      loadContent_finish_rejected(4)[where net = net and token = token and repo = repo
        and m = m and s = s]
    by blast
qed

theorem settle_regardless_of_selection_witness:
  "currentRepo (app (step (Settle 0 empty_collections) releases_left_behind))
     = Some acme_gadgets
   \<and> activeTab (app (step (Settle 0 empty_collections) releases_left_behind)) = tab_readme
   \<and> releases (app (step (Settle 0 empty_collections) releases_left_behind)) = JArray []
   \<and> contentError (app (step (Settle 0 empty_collections) releases_left_behind))
       = Some ''No releases found''
   \<and> contentLoading (app (step (Settle 0 empty_collections) releases_left_behind)) = False
   \<and> contentError (app (step (Settle 0 offline) releases_left_behind))
       = Some ''Failed to fetch''
   \<and> readmeContent (app (switch_then_settle 0 0)) = ''# gadgets''
   \<and> readmeContent (app (switch_then_settle 1 0)) = ''# widgets''
   \<and> currentRepo (app (switch_then_settle 1 0)) = Some acme_gadgets"
proof -
  let ?w = "releases_left_behind"
  have p: "0 < length (pending ?w)" "pending ?w ! 0 = (acme_widgets, tab_releases, [])"
    by (simp_all add: releases_left_behind_eq)
  have sel: "currentRepo (app ?w) = Some acme_gadgets" "activeTab (app ?w) = tab_readme"
    by (simp_all add: releases_left_behind_eq handleOpenProject_def)
  have empty: "fetch_releases empty_collections (releases_request [] acme_widgets)
      = Response 200 (Inr (JArray []))"
    by (simp add: empty_collections_def offline_def)
  have down: "fetch_releases offline (releases_request [] acme_widgets)
      = Rejected ''Failed to fetch''"
    by (simp add: offline_def)
  have stale: "currentRepo (app (step (Settle 0 empty_collections) ?w)) = Some acme_gadgets"
    "activeTab (app (step (Settle 0 empty_collections) ?w)) = tab_readme"
    "releases (app (step (Settle 0 empty_collections) ?w)) = JArray []"
    "contentError (app (step (Settle 0 empty_collections) ?w)) = Some ''No releases found''"
    "contentLoading (app (step (Settle 0 empty_collections) ?w)) = False"
    using settle_regardless_of_selection [where i = 0 and w = ?w and repo = acme_widgets
        and tab = tab_releases and token = "[]" and net = empty_collections
        and s = "app ?w" and status = 200 and rs = "JArray []"] p sel empty
    by simp_all
  have failing: "contentError (app (step (Settle 0 offline) ?w)) = Some ''Failed to fetch''"
    using settle_regardless_of_selection [where i = 0 and w = ?w and repo = acme_widgets
        and tab = tab_releases and token = "[]" and net = offline
        and s = "app ?w" and m = "''Failed to fetch''"] p down
    by (simp add: or_else_def)
  let ?v = "run [OpenProject 1 acme_widgets, OpenProject 2 acme_gadgets] start_world"
  have split: "switch_then_settle i j = run [Settle i readmes, Settle j readmes] ?v" for i j
    by (simp add: switch_then_settle_def)
  have "pending ?v = [(acme_widgets, tab_readme, []), (acme_gadgets, tab_readme, [])]"
    unfolding two_pending by simp
  moreover have "fetch_text readmes (readme_request [] acme_widgets)
      = Response 200 (Inr ''# widgets'')"
    by (simp add: readmes_def offline_def readme_request_def baseUrl_def acme_widgets_def)
  moreover have "fetch_text readmes (readme_request [] acme_gadgets)
      = Response 200 (Inr ''# gadgets'')"
    by (simp add: readmes_def offline_def readme_request_def baseUrl_def acme_gadgets_def)
  moreover have "ok 200" by (simp add: ok_def)
  ultimately have "app (run [Settle 0 readmes, Settle 0 readmes] ?v)
           = (app ?v)\<lparr>readmeContent := ''# gadgets'', contentLoading := False\<rparr>
       \<and> app (run [Settle 1 readmes, Settle 0 readmes] ?v)
           = (app ?v)\<lparr>readmeContent := ''# widgets'', contentLoading := False\<rparr>"
    using settle_regardless_of_selection [where w = ?v and net = readmes
        and repoA = acme_widgets and tokenA = "[]" and repoB = acme_gadgets
        and tokenB = "[]" and statusA = 200 and textA = "''# widgets''"
        and statusB = 200 and textB = "''# gadgets''"]
    by blast
  then have late: "readmeContent (app (switch_then_settle 0 0)) = ''# gadgets''"
    "readmeContent (app (switch_then_settle 1 0)) = ''# widgets''"
    "currentRepo (app (switch_then_settle 1 0)) = Some acme_gadgets"
    unfolding split two_pending by (simp_all add: handleOpenProject_def)
  from stale failing late show ?thesis by simp
qed

text \<open>
  Claim C1 as it is stated fails: when the request for \<open>widgets\<close> settles after the one
  for \<open>gadgets\<close>, both have settled, \<open>gadgets\<close> is the current repository, and the README
  that is shown is the one of \<open>widgets\<close>.
\<close>

theorem late_result_counterexample:
  "pending (switch_then_settle 1 0) = []
   \<and> currentRepo (app (switch_then_settle 1 0)) = Some acme_gadgets
   \<and> activeTab (app (switch_then_settle 1 0)) = tab_readme
   \<and> project_view (app (switch_then_settle 1 0)) = shown_readme ''# widgets''"
  by (simp add: switch_then_settle_def start_world_def content_effect_def Let_def
      handleOpenProject_def loadContent_start_def loadContent_finish_def loadContent_try_def
      readme_request_def baseUrl_def readmes_def offline_def ok_def project_view_def
      tab_content_def acme_start_def App_init_def or_else_def acme_widgets_def
      acme_gadgets_def)

end
